theory Spec2Isabelle
  imports Complex_Main "HOL-Library.Sublist"
begin

section \<open>Strings\<close>

text \<open>
  Python strings are modelled as \<open>string\<close> (lists of 8-bit characters).  The
  substring test \<^verbatim>\<open>a in b\<close> on two strings is \<^const>\<open>sublist\<close>.
  \<^verbatim>\<open>str.lower()\<close> is modelled on ASCII: the letters A..Z are mapped to a..z and
  every other character is left as it is.  \<^verbatim>\<open>str.strip()\<close> removes the ASCII
  white space characters (codes 9..13, 28..32) at both ends.
\<close>

definition lower_char :: "char \<Rightarrow> char" where
  "lower_char c =
     (let n = (of_char c :: nat) in if 65 \<le> n \<and> n \<le> 90 then char_of (n + 32) else c)"

definition lower :: "string \<Rightarrow> string" where
  "lower s = map lower_char s"

definition is_space :: "char \<Rightarrow> bool" where
  "is_space c = (let n = (of_char c :: nat) in (9 \<le> n \<and> n \<le> 13) \<or> (28 \<le> n \<and> n \<le> 32))"

definition strip :: "string \<Rightarrow> string" where
  "strip s = rev (dropWhile is_space (rev (dropWhile is_space s)))"

section \<open>Query analysis (3\_retrieval\_pipeline.py, class N8nQueryProcessor)\<close>

datatype WorkflowIntent =
    WEBHOOK_TRIGGER
  | API_INTEGRATION
  | DATA_TRANSFORMATION
  | DATABASE_OPERATION
  | AI_AUTOMATION
  | NOTIFICATION
  | FILE_PROCESSING
  | SCHEDULING
  | ERROR_HANDLING
  | MULTI_STEP_WORKFLOW

record Entities =
  triggers :: "string list"
  actions :: "string list"
  services :: "string list"
  data_types :: "string list"
  conditions :: "string list"

record QueryAnalysis =
  original_query :: string
  cleaned_query :: string
  intent :: WorkflowIntent
  entities :: Entities
  required_nodes :: "string list"
  workflow_complexity :: string

text \<open>The dictionary \<^verbatim>\<open>self.intent_keywords\<close>, in its insertion order.\<close>

definition intent_keywords :: "(WorkflowIntent \<times> string list) list" where
  "intent_keywords =
   [(WEBHOOK_TRIGGER,
       [''webhook'', ''trigger'', ''receive'', ''endpoint'', ''listen'', ''http post'', ''incoming'']),
    (API_INTEGRATION,
       [''api'', ''rest'', ''http'', ''request'', ''fetch'', ''get'', ''post'', ''external'', ''service'']),
    (DATA_TRANSFORMATION,
       [''transform'', ''convert'', ''process'', ''modify'', ''format'', ''parse'', ''extract'', ''filter'']),
    (DATABASE_OPERATION,
       [''database'', ''db'', ''sql'', ''postgres'', ''mysql'', ''mongodb'', ''query'', ''insert'', ''update'']),
    (AI_AUTOMATION,
       [''ai'', ''gpt'', ''openai'', ''llm'', ''artificial intelligence'', ''ml'', ''summarize'',
        ''summarise'', ''analyze'', ''analyse'', ''generate text'', ''completion'']),
    (NOTIFICATION,
       [''notify'', ''alert'', ''email'', ''slack'', ''discord'', ''telegram'', ''send'', ''message'']),
    (FILE_PROCESSING,
       [''file'', ''csv'', ''excel'', ''pdf'', ''upload'', ''download'', ''read'', ''write'', ''storage'']),
    (SCHEDULING,
       [''schedule'', ''cron'', ''timer'', ''interval'', ''daily'', ''weekly'', ''periodic'', ''recurring'']),
    (ERROR_HANDLING,
       [''error'', ''retry'', ''fail'', ''exception'', ''handle'', ''catch'', ''fallback'', ''recovery''])]"

text \<open>The dictionary \<^verbatim>\<open>self.intent_to_nodes\<close>; the fallback intent has no entry.\<close>

fun intent_to_nodes :: "WorkflowIntent \<Rightarrow> string list option" where
  "intent_to_nodes WEBHOOK_TRIGGER = Some [''n8n-nodes-base.webhook'']"
| "intent_to_nodes API_INTEGRATION = Some [''n8n-nodes-base.httpRequest'']"
| "intent_to_nodes DATA_TRANSFORMATION =
     Some [''n8n-nodes-base.code'', ''n8n-nodes-base.function'', ''n8n-nodes-base.itemLists'']"
| "intent_to_nodes DATABASE_OPERATION =
     Some [''n8n-nodes-base.postgres'', ''n8n-nodes-base.mysql'', ''n8n-nodes-base.mongodb'']"
| "intent_to_nodes AI_AUTOMATION = Some [''@n8n/n8n-nodes-langchain.openAi'']"
| "intent_to_nodes NOTIFICATION =
     Some [''n8n-nodes-base.slack'', ''n8n-nodes-base.emailSend'', ''n8n-nodes-base.discord'']"
| "intent_to_nodes FILE_PROCESSING =
     Some [''n8n-nodes-base.readBinaryFiles'', ''n8n-nodes-base.spreadsheetFile'']"
| "intent_to_nodes SCHEDULING = Some [''n8n-nodes-base.scheduleTrigger'', ''n8n-nodes-base.cron'']"
| "intent_to_nodes ERROR_HANDLING =
     Some [''n8n-nodes-base.errorTrigger'', ''n8n-nodes-base.stopAndError'']"
| "intent_to_nodes MULTI_STEP_WORKFLOW = None"

text \<open>
  \<^verbatim>\<open>score = sum(1 for keyword in keywords if keyword in query)\<close>; only the intents
  with a positive score enter \<^verbatim>\<open>intent_scores\<close>, in the order of the table.
\<close>

definition keyword_score :: "string \<Rightarrow> string list \<Rightarrow> nat" where
  "keyword_score query keywords = length (filter (\<lambda>keyword. sublist keyword query) keywords)"

definition intent_scores :: "string \<Rightarrow> (WorkflowIntent \<times> nat) list" where
  "intent_scores query =
     filter (\<lambda>(i, score). score > 0)
       (map (\<lambda>(i, keywords). (i, keyword_score query keywords)) intent_keywords)"

text \<open>
  \<^verbatim>\<open>max(d, key=d.get)\<close> walks the keys in insertion order and keeps the first key
  whose value is maximal: a later key replaces the current one only when strictly larger.
\<close>

fun max_key :: "('a \<times> nat) \<Rightarrow> ('a \<times> nat) list \<Rightarrow> 'a" where
  "max_key best [] = fst best"
| "max_key best (x # xs) = max_key (if snd best < snd x then x else best) xs"

definition detect_intent :: "string \<Rightarrow> WorkflowIntent" where
  "detect_intent query =
     (case intent_scores query of
        [] \<Rightarrow> MULTI_STEP_WORKFLOW
      | x # xs \<Rightarrow> max_key x xs)"

definition trigger_words :: "string list" where
  "trigger_words = [''when'', ''on'', ''trigger'', ''receive'', ''schedule'', ''every'']"

definition service_words :: "string list" where
  "service_words = [''slack'', ''email'', ''discord'', ''telegram'', ''google'', ''github'',
     ''gitlab'', ''jira'', ''notion'', ''airtable'', ''salesforce'', ''hubspot'']"

definition action_words :: "string list" where
  "action_words = [''send'', ''create'', ''update'', ''delete'', ''fetch'', ''transform'',
     ''notify'', ''store'', ''process'', ''analyze'', ''generate'']"

definition data_type_words :: "string list" where
  "data_type_words = [''json'', ''csv'', ''xml'', ''pdf'', ''image'', ''file'', ''data'',
     ''message'', ''email'']"

definition condition_words :: "string list" where
  "condition_words = [''if'', ''when'', ''filter'', ''contains'', ''equals'', ''greater'', ''less'']"

definition extract_entities :: "string \<Rightarrow> Entities" where
  "extract_entities query =
     \<lparr> triggers = filter (\<lambda>word. sublist word query) trigger_words,
       actions = filter (\<lambda>action. sublist action query) action_words,
       services = filter (\<lambda>service. sublist service query) service_words,
       data_types = filter (\<lambda>dtype. sublist dtype query) data_type_words,
       conditions = filter (\<lambda>condition. sublist condition query) condition_words \<rparr>"

definition service_to_node :: "(string \<times> string) list" where
  "service_to_node =
   [(''slack'', ''n8n-nodes-base.slack''),
    (''email'', ''n8n-nodes-base.emailSend''),
    (''discord'', ''n8n-nodes-base.discord''),
    (''telegram'', ''n8n-nodes-base.telegram''),
    (''google'', ''n8n-nodes-base.googleSheets''),
    (''github'', ''n8n-nodes-base.github''),
    (''postgres'', ''n8n-nodes-base.postgres''),
    (''mysql'', ''n8n-nodes-base.mysql''),
    (''mongodb'', ''n8n-nodes-base.mongodb''),
    (''openai'', ''@n8n/n8n-nodes-langchain.openAi''),
    (''gpt'', ''@n8n/n8n-nodes-langchain.openAi''),
    (''chatgpt'', ''@n8n/n8n-nodes-langchain.chatOpenAi''),
    (''summarize'', ''@n8n/n8n-nodes-langchain.openAi''),
    (''summarise'', ''@n8n/n8n-nodes-langchain.openAi''),
    (''analyze'', ''@n8n/n8n-nodes-langchain.openAi''),
    (''completion'', ''@n8n/n8n-nodes-langchain.openAi''),
    (''ai_agent'', ''@n8n/n8n-nodes-langchain.chatOpenAi''),
    (''conversational_ai'', ''@n8n/n8n-nodes-langchain.chatOpenAi''),
    (''langchain'', ''@n8n/n8n-nodes-langchain.chatOpenAi''),
    (''intelligent_agent'', ''@n8n/n8n-nodes-langchain.agent''),
    (''reasoning_agent'', ''@n8n/n8n-nodes-langchain.agent'')]"

text \<open>One round of the loop over \<^verbatim>\<open>entities.get("services", [])\<close>.\<close>

definition add_service_node :: "string list \<Rightarrow> string \<Rightarrow> string list" where
  "add_service_node nodes service =
     (case map_of service_to_node service of
        None \<Rightarrow> nodes
      | Some node \<Rightarrow> if node \<notin> set nodes then nodes @ [node] else nodes)"

text \<open>
  The body of \<^verbatim>\<open>_identify_required_nodes\<close> up to the comment
  \<^verbatim>\<open># Add trigger if needed\<close>: the nodes of the intent, one node per detected service,
  and the code node.
\<close>

definition nodes_before_trigger :: "WorkflowIntent \<Rightarrow> Entities \<Rightarrow> string list" where
  "nodes_before_trigger i ents =
     (let nodes0 = (case intent_to_nodes i of None \<Rightarrow> [] | Some ns \<Rightarrow> ns);
          nodes1 = foldl add_service_node nodes0 (services ents)
      in if conditions ents \<noteq> [] \<or> ''transform'' \<in> set (actions ents)
         then (if ''n8n-nodes-base.code'' \<notin> set nodes1
               then nodes1 @ [''n8n-nodes-base.code''] else nodes1)
         else nodes1)"

definition identify_required_nodes :: "string \<Rightarrow> WorkflowIntent \<Rightarrow> Entities \<Rightarrow> string list" where
  "identify_required_nodes query i ents =
     (let nodes = nodes_before_trigger i ents
      in if triggers ents \<noteq> [] \<and> \<not> list_ex (\<lambda>node. sublist ''Trigger'' node) nodes
         then (if sublist ''schedule'' query \<or> sublist ''every'' query
               then ''n8n-nodes-base.scheduleTrigger'' # nodes
               else ''n8n-nodes-base.webhook'' # nodes)
         else nodes)"

definition assess_complexity :: "string list \<Rightarrow> Entities \<Rightarrow> string" where
  "assess_complexity nodes ents =
     (let node_count = length nodes;
          has_conditions = (conditions ents \<noteq> [])
      in if node_count \<le> 2 \<and> \<not> has_conditions then ''simple''
         else if node_count \<le> 4 \<or> (node_count \<le> 3 \<and> has_conditions) then ''moderate''
         else ''complex'')"

definition analyze_query :: "string \<Rightarrow> QueryAnalysis" where
  "analyze_query query =
     (let cleaned = strip (lower query);
          i = detect_intent cleaned;
          ents = extract_entities cleaned;
          nodes = identify_required_nodes cleaned i ents;
          complexity = assess_complexity nodes ents
      in \<lparr> original_query = query, cleaned_query = cleaned, intent = i, entities = ents,
           required_nodes = nodes, workflow_complexity = complexity \<rparr>)"

text \<open>
  The complexity rating as the specification words it, for comparison with
  \<^const>\<open>assess_complexity\<close>.
\<close>

definition spec_complexity :: "nat \<Rightarrow> bool \<Rightarrow> string" where
  "spec_complexity node_count has_conditions =
     (if node_count \<le> 2 \<and> \<not> has_conditions then ''simple''
      else if node_count > 4 \<or> (node_count > 3 \<and> has_conditions) then ''complex''
      else ''moderate'')"

text \<open>Two concrete queries used to exercise the analysis.\<close>

definition scenario_query :: string where
  "scenario_query = ''every day at 7am fetch data from an api and store in postgres''"

definition conditions_query :: string where
  "conditions_query = ''if slack email discord''"

section \<open>Retrieval results (3\_retrieval\_pipeline.py, class AdvancedN8nRetriever)\<close>

text \<open>
  Exceptions of the Python code are values: a function that can raise returns
  \<open>py_error + 'a\<close>, with \<open>Inl\<close> for the exception.  Python floats are modelled as
  \<open>real\<close>.
\<close>

datatype py_error = IndexError | ZeroDivisionError | AttributeError | OperationalError

text \<open>
  A metadata dictionary of the vector store, with its scalar values as strings; the
  store may hand back \<^verbatim>\<open>None\<close> for a hit without metadata.
\<close>

type_synonym metadata = "(string \<times> string) list"

text \<open>
  The response of a collection query: one list of hits per query embedding.  A missing
  (\<^verbatim>\<open>None\<close>) entry counts as the empty list, which is equally falsy.
\<close>

record raw_results =
  documents :: "string list list"
  metadatas :: "metadata option list list"
  distances :: "real list list"

record result =
  content :: string
  metadata :: "metadata option"
  relevance_score :: real

text \<open>
  \<^verbatim>\<open>_format_results\<close>: the three lists of the first query are zipped (the shortest one
  decides the length); indexing an empty \<^verbatim>\<open>metadatas\<close> or \<^verbatim>\<open>distances\<close> raises.
\<close>

definition format_results :: "raw_results \<Rightarrow> py_error + result list" where
  "format_results raw =
     (case documents raw of
        [] \<Rightarrow> Inr []
      | docs # _ \<Rightarrow>
          (case metadatas raw of
             [] \<Rightarrow> Inl IndexError
           | ms # _ \<Rightarrow>
               (case distances raw of
                  [] \<Rightarrow> Inl IndexError
                | ds # _ \<Rightarrow>
                    Inr (map (\<lambda>(doc, m, d).
                               \<lparr> content = doc, metadata = m, relevance_score = 1 - d / 2 \<rparr>)
                           (zip docs (zip ms ds))))))"

text \<open>
  \<^verbatim>\<open>sorted(xs, key=f, reverse=True)\<close> and \<^verbatim>\<open>xs.sort(key=f, reverse=True)\<close>:
  descending by key, elements with equal keys keep their order.
\<close>

definition sort_reverse :: "('a \<Rightarrow> real) \<Rightarrow> 'a list \<Rightarrow> 'a list" where
  "sort_reverse f xs = sort_key (\<lambda>x. - f x) xs"

text \<open>
  The deduplication loop of stage 1 over the sorted node results, with its
  \<^verbatim>\<open>break\<close>.  Python's \<^verbatim>\<open>hash\<close> is a parameter.
\<close>

fun dedup_loop ::
  "(string \<Rightarrow> int) \<Rightarrow> nat \<Rightarrow> result list \<Rightarrow> int list \<Rightarrow> result list \<Rightarrow> result list" where
  "dedup_loop h k [] seen acc = acc"
| "dedup_loop h k (r # rs) seen acc =
     (let content_hash = h (take 100 (content r))
      in if content_hash \<notin> set seen
         then (let acc' = acc @ [r]
               in if length acc' \<ge> k then acc' else dedup_loop h k rs (content_hash # seen) acc')
         else dedup_loop h k rs seen acc)"

type_synonym embedding = "real list"

text \<open>
  A collection of the vector store, as the black box
  \<^verbatim>\<open>query(query_embeddings=[e], n_results=n)\<close>.  \<^verbatim>\<open>self.collections\<close> maps the names of
  the collections that could be loaded to them.
\<close>

type_synonym collection = "embedding \<Rightarrow> nat \<Rightarrow> raw_results"

record retrieved_chunks =
  nodes :: "result list"
  templates :: "result list"
  tasks :: "result list"
  connections :: "result list"

text \<open>The loop \<^verbatim>\<open>for embedding in query_embeddings[:2]\<close> of stage 1.\<close>

fun node_stage :: "collection \<Rightarrow> nat \<Rightarrow> embedding list \<Rightarrow> py_error + result list" where
  "node_stage c k [] = Inr []"
| "node_stage c k (e # es) =
     (case format_results (c e k) of
        Inl err \<Rightarrow> Inl err
      | Inr rs \<Rightarrow> (case node_stage c k es of Inl err \<Rightarrow> Inl err | Inr rest \<Rightarrow> Inr (rs @ rest)))"

text \<open>
  Stages 2 to 4 query with \<^verbatim>\<open>query_embeddings[0]\<close>, which raises on an empty list of
  embeddings; a collection that is not loaded leaves the empty list.
\<close>

definition base_stage ::
  "collection option \<Rightarrow> embedding list \<Rightarrow> nat \<Rightarrow> py_error + result list" where
  "base_stage copt query_embeddings n =
     (case copt of
        None \<Rightarrow> Inr []
      | Some c \<Rightarrow>
          (case query_embeddings of
             [] \<Rightarrow> Inl IndexError
           | e # _ \<Rightarrow> format_results (c e n)))"

text \<open>
  \<^verbatim>\<open>_multi_stage_retrieval\<close>.  The embeddings that the embedding model computes for
  the expanded queries are passed in place of the queries, and the number of results per
  stage is a natural number.  The four stages run in order; an exception in one of them
  ends the call.
\<close>

definition multi_stage_retrieval ::
  "(string \<Rightarrow> int) \<Rightarrow> (string \<rightharpoonup> collection) \<Rightarrow> embedding list \<Rightarrow> QueryAnalysis \<Rightarrow> nat
     \<Rightarrow> py_error + retrieved_chunks" where
  "multi_stage_retrieval h collections query_embeddings analysis k_per_stage =
     (case (case collections ''n8n_nodes'' of
              None \<Rightarrow> Inr []
            | Some c \<Rightarrow>
                (case node_stage c k_per_stage (take 2 query_embeddings) of
                   Inl err \<Rightarrow> Inl err
                 | Inr node_results \<Rightarrow>
                     Inr (dedup_loop h k_per_stage
                            (sort_reverse relevance_score node_results) [] []))) of
        Inl err \<Rightarrow> Inl err
      | Inr ns \<Rightarrow>
     (case base_stage (collections ''n8n_templates'') query_embeddings (min k_per_stage 3) of
        Inl err \<Rightarrow> Inl err
      | Inr ts \<Rightarrow>
     (case base_stage (collections ''n8n_tasks'') query_embeddings (min k_per_stage 3) of
        Inl err \<Rightarrow> Inl err
      | Inr ks \<Rightarrow>
     (case base_stage (collections ''n8n_connections'') query_embeddings (min k_per_stage 2) of
        Inl err \<Rightarrow> Inl err
      | Inr cs \<Rightarrow>
          Inr \<lparr> nodes = ns, templates = ts, tasks = ks, connections = cs \<rparr>))))"

text \<open>
  The contract of the vector store that the size caps rest on: a query for \<open>n\<close> results
  answers with at most \<open>n\<close> hits per query embedding.
\<close>

definition honours_n_results :: "collection \<Rightarrow> bool" where
  "honours_n_results c = (\<forall>e n. \<forall>docs \<in> set (documents (c e n)). length docs \<le> n)"

section \<open>Context assembly (3\_retrieval\_pipeline.py, class N8nContextAssembler)\<close>

record node_doc =
  node_type :: string
  properties :: metadata
  description :: string
  configuration :: metadata

record pattern =
  pattern_id :: string
  pattern_description :: string
  relevance :: real

record example =
  example_type :: string
  example_content :: string

record assembled_context =
  ctx_query :: string
  ctx_intent :: string
  ctx_complexity :: string
  ctx_required_nodes :: "string list"
  node_documentation :: "node_doc list"
  workflow_patterns :: "pattern list"
  examples :: "example list"
  validation_rules :: "string list"
  prompt :: string

fun intent_value :: "WorkflowIntent \<Rightarrow> string" where
  "intent_value WEBHOOK_TRIGGER = ''webhook_trigger''"
| "intent_value API_INTEGRATION = ''api_integration''"
| "intent_value DATA_TRANSFORMATION = ''data_transformation''"
| "intent_value DATABASE_OPERATION = ''database_operation''"
| "intent_value AI_AUTOMATION = ''ai_automation''"
| "intent_value NOTIFICATION = ''notification''"
| "intent_value FILE_PROCESSING = ''file_processing''"
| "intent_value SCHEDULING = ''scheduling''"
| "intent_value ERROR_HANDLING = ''error_handling''"
| "intent_value MULTI_STEP_WORKFLOW = ''multi_step_workflow''"

text \<open>
  The loop of \<^verbatim>\<open>_get_node_documentation\<close> over the node results.  Every chunk whose
  content contains the node type overwrites the description; the loop stops at the first
  such chunk whose metadata names exactly this node type.  A chunk without metadata
  (\<^verbatim>\<open>None\<close>) makes \<^verbatim>\<open>metadata.get\<close> raise.
\<close>

fun scan_chunks :: "string \<Rightarrow> result list \<Rightarrow> node_doc \<Rightarrow> py_error + node_doc" where
  "scan_chunks nt [] doc = Inr doc"
| "scan_chunks nt (chunk # chunks) doc =
     (if sublist nt (content chunk)
      then (let doc' = doc\<lparr> description := take 500 (content chunk) \<rparr>
            in case metadata chunk of
                 None \<Rightarrow> Inl AttributeError
               | Some md \<Rightarrow>
                   if map_of md ''node_type'' = Some nt
                   then Inr (doc'\<lparr> properties := md \<rparr>)
                   else scan_chunks nt chunks doc')
      else scan_chunks nt chunks doc)"

definition get_node_documentation :: "string \<Rightarrow> retrieved_chunks \<Rightarrow> py_error + node_doc" where
  "get_node_documentation nt chunks =
     scan_chunks nt (nodes chunks)
       \<lparr> node_type = nt, properties = [], description = [], configuration = [] \<rparr>"

text \<open>
  The loop of \<^verbatim>\<open>assemble_context\<close> over the required nodes.  The dictionary that
  \<^verbatim>\<open>_get_node_documentation\<close> returns always has its four keys, so the test
  \<^verbatim>\<open>if node_docs:\<close> holds for every one of them and each is appended.
\<close>

fun collect_node_docs :: "string list \<Rightarrow> retrieved_chunks \<Rightarrow> py_error + node_doc list" where
  "collect_node_docs [] chunks = Inr []"
| "collect_node_docs (nt # nts) chunks =
     (case get_node_documentation nt chunks of
        Inl err \<Rightarrow> Inl err
      | Inr node_docs \<Rightarrow>
          (case collect_node_docs nts chunks of
             Inl err \<Rightarrow> Inl err
           | Inr rest \<Rightarrow> Inr (node_docs # rest)))"

fun pattern_loop :: "result list \<Rightarrow> py_error + pattern list" where
  "pattern_loop [] = Inr []"
| "pattern_loop (template # rest) =
     (if relevance_score template > 0.7
      then (case metadata template of
              None \<Rightarrow> Inl AttributeError
            | Some md \<Rightarrow>
                (case pattern_loop rest of
                   Inl err \<Rightarrow> Inl err
                 | Inr ps \<Rightarrow>
                     Inr (\<lparr> pattern_id = (case map_of md ''template_id'' of
                                              None \<Rightarrow> ''unknown'' | Some t \<Rightarrow> t),
                            pattern_description = take 300 (content template),
                            relevance = relevance_score template \<rparr> # ps)))
      else pattern_loop rest)"

definition get_workflow_patterns :: "retrieved_chunks \<Rightarrow> py_error + pattern list" where
  "get_workflow_patterns chunks =
     (case pattern_loop (templates chunks) of Inl err \<Rightarrow> Inl err | Inr ps \<Rightarrow> Inr (take 3 ps))"

definition get_relevant_examples :: "retrieved_chunks \<Rightarrow> example list" where
  "get_relevant_examples chunks =
     take 2 (map (\<lambda>task. \<lparr> example_type = ''task_configuration'',
                             example_content = take 400 (content task) \<rparr>)
               (filter (\<lambda>task. relevance_score task > 0.6) (tasks chunks)))"

text \<open>
  \<^verbatim>\<open>_get_validation_rules\<close>.  \<^verbatim>\<open>"nodes-base.webhook" in required_nodes\<close> tests
  membership in a list of strings, that is equality with one of its elements.
\<close>

definition get_validation_rules :: "string list \<Rightarrow> string list" where
  "get_validation_rules nodes_req =
     (let rules0 = [''Workflow must have at least one trigger node'',
                    ''All node connections must be valid'',
                    ''Node IDs must be unique'',
                    ''Position arrays must have [x, y] coordinates''];
          rules1 = (if list_ex (\<lambda>node. sublist ''Trigger'' node) nodes_req
                    then rules0 @ [''Only one trigger node per workflow''] else rules0);
          rules2 = (if ''nodes-base.webhook'' \<in> set nodes_req
                    then rules1 @ [''Webhook must have httpMethod and path parameters'']
                    else rules1)
      in if ''nodes-base.code'' \<in> set nodes_req
         then rules2 @ [''Code node must have valid JavaScript in jsCode parameter'']
         else rules2)"

text \<open>\<^verbatim>\<open>sep.join(xs)\<close> and the line feed \<^verbatim>\<open>chr(10)\<close>.\<close>

fun join :: "string \<Rightarrow> string list \<Rightarrow> string" where
  "join sep [] = []"
| "join sep [x] = x"
| "join sep (x # y # ys) = x @ sep @ join sep (y # ys)"

definition nl :: string where
  "nl = [CHR 0x0A]"

definition create_structured_prompt :: "assembled_context \<Rightarrow> string" where
  "create_structured_prompt ctx =
     ''Generate an n8n workflow JSON for the following request:'' @ nl @ nl
     @ ''USER REQUEST: '' @ ctx_query ctx @ nl @ nl
     @ ''WORKFLOW REQUIREMENTS:'' @ nl
     @ ''- Intent: '' @ ctx_intent ctx @ nl
     @ ''- Complexity: '' @ ctx_complexity ctx @ nl
     @ ''- Required Nodes: '' @ join '', '' (ctx_required_nodes ctx) @ nl @ nl
     @ ''NODE DOCUMENTATION:'' @ nl
     @ concat (map (\<lambda>d. nl @ node_type d @ '':'' @ nl @ description d @ nl)
                 (node_documentation ctx))
     @ (if workflow_patterns ctx \<noteq> []
        then nl @ ''RELEVANT PATTERNS:'' @ nl
             @ concat (map (\<lambda>p. ''- '' @ pattern_description p @ nl) (workflow_patterns ctx))
        else [])
     @ (if examples ctx \<noteq> []
        then nl @ ''EXAMPLES:'' @ nl
             @ concat (map (\<lambda>e. example_content e @ nl) (examples ctx))
        else [])
     @ nl @ ''VALIDATION RULES:'' @ nl
     @ join nl (map (\<lambda>rule. ''- '' @ rule) (validation_rules ctx)) @ nl @ nl
     @ ''INSTRUCTIONS:'' @ nl
     @ ''1. Create a complete n8n workflow JSON'' @ nl
     @ ''2. Include all required nodes with proper configuration'' @ nl
     @ ''3. Set up correct connections between nodes'' @ nl
     @ ''4. Use appropriate node IDs and positions'' @ nl
     @ ''5. Ensure the workflow follows n8n JSON schema'' @ nl @ nl
     @ ''Generate the workflow JSON:'' @ nl"

definition assemble_context :: "QueryAnalysis \<Rightarrow> retrieved_chunks \<Rightarrow> py_error + assembled_context" where
  "assemble_context query_analysis chunks =
     (case collect_node_docs (required_nodes query_analysis) chunks of
        Inl err \<Rightarrow> Inl err
      | Inr docs \<Rightarrow>
          (case get_workflow_patterns chunks of
             Inl err \<Rightarrow> Inl err
           | Inr patterns \<Rightarrow>
               (let ctx = \<lparr> ctx_query = original_query query_analysis,
                             ctx_intent = intent_value (intent query_analysis),
                             ctx_complexity = workflow_complexity query_analysis,
                             ctx_required_nodes = required_nodes query_analysis,
                             node_documentation = docs,
                             workflow_patterns = patterns,
                             examples = get_relevant_examples chunks,
                             validation_rules =
                               get_validation_rules (required_nodes query_analysis),
                             prompt = [] \<rparr>
                in Inr (ctx\<lparr> prompt := create_structured_prompt ctx \<rparr>))))"

text \<open>A result set without any hit in any collection.\<close>

definition no_chunks :: retrieved_chunks where
  "no_chunks = \<lparr> nodes = [], templates = [], tasks = [], connections = [] \<rparr>"

section \<open>Service-aware ranking (4\_ollama\_integration.py)\<close>

text \<open>The dictionary \<^verbatim>\<open>service_patterns\<close> of \<^verbatim>\<open>_detect_service_mentions\<close>, in its order.\<close>

definition service_patterns :: "(string \<times> string list) list" where
  "service_patterns =
   [(''gmail'', [''gmail'', ''google mail'', ''gmail account'', ''gmail api'']),
    (''whatsapp'', [''whatsapp'', ''whats app'', ''whatsapp message'', ''whatsapp business'',
                    ''wa message'']),
    (''telegram'', [''telegram'', ''telegram bot'', ''telegram message'']),
    (''slack'', [''slack'', ''slack channel'', ''slack notification'']),
    (''discord'', [''discord'', ''discord bot'', ''discord message'']),
    (''reddit'', [''reddit'', ''reddit post'', ''reddit posts'', ''reddit subreddit'', ''subreddit'',
                  ''r/'', ''/r/'', ''reddit data'', ''reddit feed'', ''reddit api'', ''from reddit'',
                  ''reddit content'']),
    (''twitter'', [''twitter'', ''tweet'', ''x.com'']),
    (''linkedin'', [''linkedin'', ''linkedin post'']),
    (''facebook'', [''facebook'', ''fb'']),
    (''instagram'', [''instagram'', ''insta'']),
    (''youtube'', [''youtube'', ''youtube video'']),
    (''postgres'', [''postgres'', ''postgresql'', ''pg'']),
    (''mysql'', [''mysql'']),
    (''mongodb'', [''mongodb'', ''mongo'']),
    (''salesforce'', [''salesforce'', ''sfdc'']),
    (''hubspot'', [''hubspot'']),
    (''notion'', [''notion'']),
    (''trello'', [''trello'']),
    (''asana'', [''asana'']),
    (''jira'', [''jira'']),
    (''github'', [''github'', ''git'']),
    (''aws'', [''aws'', ''amazon web services'']),
    (''outlook'', [''outlook'', ''microsoft outlook'', ''office 365'']),
    (''smtp'', [''smtp'', ''email server'', ''mail server'']),
    (''webhook'', [''webhook'', ''http trigger'']),
    (''openai'', [''openai'', ''open ai'', ''gpt'', ''chatgpt'', ''summarize'', ''summarise'',
                  ''ai summary'', ''ai analysis'', ''ai processing'', ''llm'', ''language model'']),
    (''openai_assistant'', [''assistant'', ''create assistant'', ''openai assistant'',
                            ''ai assistant''])]"

definition detect_service_mentions :: "string \<Rightarrow> string list" where
  "detect_service_mentions query =
     map fst (filter (\<lambda>(service, patterns). list_ex (\<lambda>p. sublist p query) patterns)
                service_patterns)"

record scored_result =
  document :: string
  scored_metadata :: "metadata option"
  distance :: real
  score :: real
  service_bonus :: real

text \<open>
  The bonus that one detected service adds for a hit whose lower-cased node type is
  \<open>nt\<close> (the body of the loop under \<^verbatim>\<open># Strong bonus for exact service matches\<close>).
\<close>

definition match_bonus :: "string \<Rightarrow> string \<Rightarrow> real" where
  "match_bonus nt service =
     (if sublist service nt
      then (if service = ''gmail'' \<and> sublist ''gmail'' nt then 0.5
            else if service = ''reddit'' \<and> sublist ''reddit'' nt then 0.5
            else if service = ''whatsapp'' \<and> sublist ''whatsapp'' nt then 0.5
            else if service = ''openai'' \<and> sublist ''openai'' nt then 0.5
            else if service = ''smtp'' \<and> sublist ''emailsend'' nt then 0.2
            else 0.3)
      else 0)"

text \<open>The penalty for the generic nodes when a specific service is detected.\<close>

definition generic_penalty :: "string \<Rightarrow> string list \<Rightarrow> real" where
  "generic_penalty nt service_mentions =
     (if service_mentions \<noteq> []
      then (if ''reddit'' \<in> set service_mentions \<and> sublist ''httprequest'' (lower nt) then - 0.3
            else if ''gmail'' \<in> set service_mentions \<and> sublist ''emailsend'' (lower nt) then - 0.3
            else 0)
      else 0)"

text \<open>The content relevance bonus: 0.1 for each detected service named in the document.\<close>

definition content_bonus :: "string \<Rightarrow> string list \<Rightarrow> real" where
  "content_bonus doc service_mentions =
     (if doc \<noteq> []
      then (\<Sum>service \<leftarrow> service_mentions. if sublist service (lower doc) then 0.1 else 0)
      else 0)"

text \<open>
  The value of \<^verbatim>\<open>service_bonus\<close> for one hit.  Nothing is added unless the hit has
  metadata with a non-empty \<^verbatim>\<open>node_type\<close>.
\<close>

definition hit_service_bonus :: "string list \<Rightarrow> metadata option \<Rightarrow> string \<Rightarrow> real" where
  "hit_service_bonus service_mentions md doc =
     (case md of
        None \<Rightarrow> 0
      | Some m \<Rightarrow>
          (case map_of m ''node_type'' of
             None \<Rightarrow> 0
           | Some raw_nt \<Rightarrow>
               if raw_nt = [] then 0
               else (let nt = lower raw_nt
                     in (\<Sum>service \<leftarrow> service_mentions. match_bonus nt service)
                        + generic_penalty nt service_mentions
                        + content_bonus doc service_mentions)))"

text \<open>
  The scoring loop \<^verbatim>\<open>for i in range(len(results['documents'][0]))\<close>: hit \<open>i\<close> reads
  position \<open>i\<close> of the metadata and distance lists, which raises when they are shorter;
  the base score \<^verbatim>\<open>1.0 / (1.0 + distance)\<close> raises at distance \<open>-1\<close>.
\<close>

fun score_hits ::
  "string list \<Rightarrow> string list \<Rightarrow> metadata option list \<Rightarrow> real list
     \<Rightarrow> py_error + scored_result list" where
  "score_hits service_mentions [] ms ds = Inr []"
| "score_hits service_mentions (doc # docs) [] ds = Inl IndexError"
| "score_hits service_mentions (doc # docs) (m # ms) [] = Inl IndexError"
| "score_hits service_mentions (doc # docs) (m # ms) (d # ds) =
     (if 1 + d = 0 then Inl ZeroDivisionError
      else (let base_score = 1 / (1 + d);
                bonus = hit_service_bonus service_mentions m doc
            in case score_hits service_mentions docs ms ds of
                 Inl err \<Rightarrow> Inl err
               | Inr rest \<Rightarrow>
                   Inr (\<lparr> document = doc, scored_metadata = m, distance = d,
                          score = base_score + bonus, service_bonus = bonus \<rparr> # rest)))"

definition rank_results_by_service_relevance ::
  "raw_results \<Rightarrow> string list \<Rightarrow> string \<Rightarrow> py_error + scored_result list" where
  "rank_results_by_service_relevance results service_mentions query =
     (case documents results of
        [] \<Rightarrow> Inr []
      | [] # _ \<Rightarrow> Inr []
      | docs # _ \<Rightarrow>
          (case metadatas results of
             [] \<Rightarrow> Inl IndexError
           | ms # _ \<Rightarrow>
               (case distances results of
                  [] \<Rightarrow> Inl IndexError
                | ds # _ \<Rightarrow>
                    (case score_hits service_mentions docs ms ds of
                       Inl err \<Rightarrow> Inl err
                     | Inr scored_results \<Rightarrow> Inr (sort_reverse score scored_results)))))"

text \<open>
  Whether the node type of a hit draws the penalty for generic nodes, and whether it
  contains one of the detected services.
\<close>

definition penalised :: "string list \<Rightarrow> string \<Rightarrow> bool" where
  "penalised service_mentions raw_nt =
     ((''reddit'' \<in> set service_mentions \<and> sublist ''httprequest'' (lower raw_nt))
      \<or> (''gmail'' \<in> set service_mentions \<and> sublist ''emailsend'' (lower raw_nt)))"

definition matches_entity :: "string list \<Rightarrow> metadata option \<Rightarrow> bool" where
  "matches_entity service_mentions md =
     (case md of
        None \<Rightarrow> False
      | Some m \<Rightarrow>
          (case map_of m ''node_type'' of
             None \<Rightarrow> False
           | Some raw_nt \<Rightarrow>
               raw_nt \<noteq> [] \<and> list_ex (\<lambda>service. sublist service (lower raw_nt)) service_mentions))"

definition hit_penalised :: "string list \<Rightarrow> metadata option \<Rightarrow> bool" where
  "hit_penalised service_mentions md =
     (case md of
        None \<Rightarrow> False
      | Some m \<Rightarrow>
          (case map_of m ''node_type'' of
             None \<Rightarrow> False
           | Some raw_nt \<Rightarrow> penalised service_mentions raw_nt))"

section \<open>Feedback loop (5\_feedback\_loop\_system.py, class FeedbackLoop)\<close>

text \<open>
  The SQLite database is modelled by its three tables that the recording touches.  The
  rows of \<^verbatim>\<open>generation_history\<close> are kept in insertion order, with the values
  themselves in place of their JSON text; the key of a row is its position, and time
  stamps are left out.  The tables \<^verbatim>\<open>node_effectiveness\<close> and \<^verbatim>\<open>pattern_success\<close>
  have a primary key, so they are lists of (key, row) pairs with distinct keys, in
  insertion order.
\<close>

type_synonym workflow = "(string \<times> string) list"

text \<open>
  The context dictionary handed to the recording is read with \<^verbatim>\<open>context.get\<close> and a
  default, so a key may be absent.
\<close>

record gen_context =
  gc_intent :: "string option"
  gc_complexity :: "string option"
  gc_required_nodes :: "string list option"
  gc_node_documentation :: "node_doc list option"
  gc_workflow_patterns :: "pattern list option"
  gc_examples :: "example list option"

record history_row =
  h_query :: string
  h_intent :: string
  h_complexity :: string
  h_required_nodes :: "string list"
  h_retrieved_chunks :: "nat \<times> nat \<times> nat"
  h_generated_workflow :: "workflow option"
  h_success :: bool
  h_validation_errors :: "string list option"
  h_user_feedback :: "int option"

record effectiveness_row =
  total_uses :: nat
  successful_uses :: nat
  effectiveness :: real

record feedback_loop =
  generation_history :: "history_row list"
  node_effectiveness :: "(string \<times> effectiveness_row) list"
  pattern_success :: "(string \<times> effectiveness_row) list"
  node_success_rates :: "(string \<times> real) list"
  pattern_effectiveness_cache :: "(string \<times> real) list"

text \<open>The state after \<^verbatim>\<open>__init__\<close> on a fresh database file.\<close>

definition init_feedback :: feedback_loop where
  "init_feedback =
     \<lparr> generation_history = [], node_effectiveness = [], pattern_success = [],
       node_success_rates = [], pattern_effectiveness_cache = [] \<rparr>"

definition get_or :: "'a option \<Rightarrow> 'a \<Rightarrow> 'a" where
  "get_or v dflt = (case v of None \<Rightarrow> dflt | Some x \<Rightarrow> x)"

text \<open>Truth value of an \<^verbatim>\<open>Optional[Dict]\<close>: \<^verbatim>\<open>None\<close> and the empty dictionary are falsy.\<close>

definition truthy :: "'a list option \<Rightarrow> bool" where
  "truthy v = (case v of None \<Rightarrow> False | Some x \<Rightarrow> x \<noteq> [])"

text \<open>
  One round of the loops in \<^verbatim>\<open>_update_node_effectiveness\<close> and
  \<^verbatim>\<open>_update_pattern_effectiveness\<close>: the row of the key is updated, with the score
  \<^verbatim>\<open>successful_uses / total_uses\<close>, or a new row is inserted at the end.
\<close>

definition update_row :: "bool \<Rightarrow> effectiveness_row \<Rightarrow> effectiveness_row" where
  "update_row success row =
     (let total = total_uses row + 1;
          successful = (if success then successful_uses row + 1 else successful_uses row)
      in \<lparr> total_uses = total, successful_uses = successful,
           effectiveness = (if total > 0 then real successful / real total else 0) \<rparr>)"

definition new_row :: "bool \<Rightarrow> effectiveness_row" where
  "new_row success =
     \<lparr> total_uses = 1, successful_uses = (if success then 1 else 0),
       effectiveness = (if success then 1.0 else 0.0) \<rparr>"

definition record_use ::
  "bool \<Rightarrow> (string \<times> effectiveness_row) list \<Rightarrow> string \<Rightarrow> (string \<times> effectiveness_row) list" where
  "record_use success table key =
     (case map_of table key of
        Some row \<Rightarrow> map (\<lambda>(k, r). if k = key then (k, update_row success r) else (k, r)) table
      | None \<Rightarrow> table @ [(key, new_row success)])"

text \<open>
  Every call of \<^verbatim>\<open>sqlite3.connect\<close> is a connection of its own.  A connection opens
  a transaction at its first \<^verbatim>\<open>INSERT\<close> or \<^verbatim>\<open>UPDATE\<close> and holds the write lock of
  the database file until it commits; while it does, a write through any other
  connection raises \<^verbatim>\<open>sqlite3.OperationalError\<close> (database is locked) when the busy
  timeout has run out.  The two update functions open their own connection, so they take
  the flag \<open>locked\<close>: whether their caller holds an uncommitted write.  Their loop
  reads the row of the first key and then writes, so with a key to record and the lock
  taken they raise before anything is written.
\<close>

definition update_node_effectiveness ::
  "bool \<Rightarrow> feedback_loop \<Rightarrow> gen_context \<Rightarrow> bool \<Rightarrow> py_error + feedback_loop" where
  "update_node_effectiveness locked fb ctx success =
     (let nodes_used = get_or (gc_required_nodes ctx) []
      in if nodes_used = [] then Inr fb
         else if locked then Inl OperationalError
         else Inr (fb\<lparr> node_effectiveness :=
                          foldl (record_use success) (node_effectiveness fb) nodes_used \<rparr>))"

definition update_pattern_effectiveness ::
  "bool \<Rightarrow> feedback_loop \<Rightarrow> gen_context \<Rightarrow> bool \<Rightarrow> py_error + feedback_loop" where
  "update_pattern_effectiveness locked fb ctx success =
     (let patterns_used = map pattern_id (get_or (gc_workflow_patterns ctx) [])
      in if patterns_used = [] then Inr fb
         else if locked then Inl OperationalError
         else Inr (fb\<lparr> pattern_success :=
                          foldl (record_use success) (pattern_success fb) patterns_used \<rparr>))"

text \<open>
  \<^verbatim>\<open>record_generation\<close> inserts the history row through its own connection and
  commits only at its end, after both update functions have run: they are called with
  the lock taken.  When one of them raises, the call ends there: the history row is
  never committed, so the database is as it was before the call, the caches are not
  cleared, and the state of the caller stays the one it passed in.
\<close>

definition record_generation ::
  "feedback_loop \<Rightarrow> string \<Rightarrow> gen_context \<Rightarrow> workflow option \<Rightarrow> bool \<Rightarrow> string list option
     \<Rightarrow> int option \<Rightarrow> py_error + feedback_loop" where
  "record_generation fb query ctx wflow success validation_errors user_feedback =
     (let row = \<lparr> h_query = query,
                   h_intent = get_or (gc_intent ctx) ''unknown'',
                   h_complexity = get_or (gc_complexity ctx) ''unknown'',
                   h_required_nodes = get_or (gc_required_nodes ctx) [],
                   h_retrieved_chunks =
                     (length (get_or (gc_node_documentation ctx) []),
                      length (get_or (gc_workflow_patterns ctx) []),
                      length (get_or (gc_examples ctx) [])),
                   h_generated_workflow = (if truthy wflow then wflow else None),
                   h_success = success,
                   h_validation_errors =
                     (if truthy validation_errors then validation_errors else None),
                   h_user_feedback = user_feedback \<rparr>;
          fb1 = fb\<lparr> generation_history := generation_history fb @ [row] \<rparr>
      in case (if success \<and> truthy wflow then update_node_effectiveness True fb1 ctx True
               else if \<not> success then update_node_effectiveness True fb1 ctx False
               else Inr fb1) of
           Inl err \<Rightarrow> Inl err
         | Inr fb2 \<Rightarrow>
             (case update_pattern_effectiveness True fb2 ctx success of
                Inl err \<Rightarrow> Inl err
              | Inr fb3 \<Rightarrow>
                  Inr (fb3\<lparr> node_success_rates := [], pattern_effectiveness_cache := [] \<rparr>)))"

text \<open>
  \<^verbatim>\<open>get_node_weights\<close>: an empty cache is refilled from the rows with
  \<^verbatim>\<open>total_uses > 0\<close>; the cache is returned together with the new state.
\<close>

definition get_node_weights :: "feedback_loop \<Rightarrow> (string \<times> real) list \<times> feedback_loop" where
  "get_node_weights fb =
     (let fb' = (if node_success_rates fb = []
                 then fb\<lparr> node_success_rates :=
                            map (\<lambda>(k, r). (k, effectiveness r))
                              (filter (\<lambda>(k, r). total_uses r > 0) (node_effectiveness fb)) \<rparr>
                 else fb)
      in (node_success_rates fb', fb'))"

text \<open>The weight that the getter reports for a block; \<open>None\<close> when the key is absent.\<close>

definition node_weight :: "feedback_loop \<Rightarrow> string \<rightharpoonup> real" where
  "node_weight fb = map_of (fst (get_node_weights fb))"

text \<open>A context whose only required block is \<open>x\<close>, and some non-empty workflow.\<close>

definition block_context :: "string \<Rightarrow> gen_context" where
  "block_context x =
     \<lparr> gc_intent = None, gc_complexity = None, gc_required_nodes = Some [x],
       gc_node_documentation = None, gc_workflow_patterns = None, gc_examples = None \<rparr>"

definition some_workflow :: "workflow option" where
  "some_workflow = Some [(''name'', ''w'')]"

section \<open>Chunking (chunking\_utils.py, class IntelligentChunker)\<close>

text \<open>
  \<^verbatim>\<open>split_text\<close>.  The splitter of the \<^verbatim>\<open>langchain_text_splitters\<close> library that
  handles the long texts is a parameter.
\<close>

definition split_text :: "(string \<Rightarrow> string list) \<Rightarrow> int \<Rightarrow> string \<Rightarrow> string list" where
  "split_text text_splitter chunk_size text =
     (if text = [] \<or> int (length text) \<le> chunk_size
      then (if text \<noteq> [] then [text] else [])
      else text_splitter text)"

text \<open>A splitter that returns its input as one chunk, for concrete evaluations.\<close>

definition whole_text_splitter :: "string \<Rightarrow> string list" where
  "whole_text_splitter t = [t]"

text \<open>
  A response of the vector store is well formed when it has as many metadata and distance
  lists as document lists; then \<^const>\<open>format_results\<close> does not raise.
\<close>

definition well_formed :: "raw_results \<Rightarrow> bool" where
  "well_formed raw =
     (length (metadatas raw) = length (documents raw)
      \<and> length (distances raw) = length (documents raw))"

definition well_formed_collection :: "collection \<Rightarrow> bool" where
  "well_formed_collection c = (\<forall>e n. well_formed (c e n))"

text \<open>
  Concrete inputs for evaluations: a hash, a collection with four stored chunks that
  answers with its first \<open>n\<close> chunks, a store in which the connections collection is not
  loaded, and responses of the nodes collection to two queries.
\<close>

definition length_hash :: "string \<Rightarrow> int" where
  "length_hash s = int (length s)"

definition demo_collection :: collection where
  "demo_collection e n =
     \<lparr> documents = [take n [''a'', ''bb'', ''a'', ''dddd'']],
       metadatas = [take n [None, None, None, None]],
       distances = [take n [0.5, 0.25, 1, 0]] \<rparr>"

definition demo_collections :: "string \<rightharpoonup> collection" where
  "demo_collections name =
     (if name = ''n8n_nodes'' \<or> name = ''n8n_templates'' \<or> name = ''n8n_tasks''
      then Some demo_collection else None)"

definition smtp_query :: string where
  "smtp_query = ''send gmail via smtp''"

definition gmail_query :: string where
  "gmail_query = ''send a gmail message''"

definition smtp_results :: raw_results where
  "smtp_results =
     \<lparr> documents = [[''doc'', ''doc'']],
       metadatas = [[Some [(''node_type'', ''n8n-nodes-base.emailSendSmtp'')],
                     Some [(''node_type'', ''n8n-nodes-base.code'')]]],
       distances = [[0, 0]] \<rparr>"

definition gmail_results :: raw_results where
  "gmail_results =
     \<lparr> documents = [[''doc'', ''doc'']],
       metadatas = [[Some [(''node_type'', ''n8n-nodes-base.code'')],
                     Some [(''node_type'', ''n8n-nodes-base.gmail'')]]],
       distances = [[0, 0]] \<rparr>"

section \<open>Properties of the query analysis\<close>

lemma analyze_scenario_query:
  "analyze_query scenario_query =
     \<lparr> original_query = scenario_query, cleaned_query = scenario_query,
       intent = API_INTEGRATION,
       entities = \<lparr> triggers = [''every''], actions = [''fetch'', ''store''], services = [],
                    data_types = [''data''], conditions = [] \<rparr>,
       required_nodes = [''n8n-nodes-base.scheduleTrigger'', ''n8n-nodes-base.httpRequest''],
       workflow_complexity = ''simple'' \<rparr>"
  by code_simp

lemma analyze_conditions_query:
  "analyze_query conditions_query =
     \<lparr> original_query = conditions_query, cleaned_query = conditions_query,
       intent = NOTIFICATION,
       entities = \<lparr> triggers = [], actions = [], services = [''slack'', ''email'', ''discord''],
                    data_types = [''email''], conditions = [''if''] \<rparr>,
       required_nodes = [''n8n-nodes-base.slack'', ''n8n-nodes-base.emailSend'',
                         ''n8n-nodes-base.discord'', ''n8n-nodes-base.code''],
       workflow_complexity = ''moderate'' \<rparr>"
  by code_simp

text \<open>
  Claim C2.  The specification rates a query with more than three required blocks and
  detected condition entities as complex.  In \<^const>\<open>assess_complexity\<close> the test
  \<^verbatim>\<open>node_count <= 4 or (node_count <= 3 and has_conditions)\<close> has a second disjunct
  that the first one subsumes, so conditions never lower the threshold: the query
  \<^const>\<open>conditions_query\<close> yields exactly four required blocks and the condition
  entity \<open>if\<close>, and is rated moderate, where the specification's formula gives complex.
\<close>

theorem assess_complexity_four_nodes_with_conditions:
  "length (required_nodes (analyze_query conditions_query)) = 4
   \<and> conditions (entities (analyze_query conditions_query)) = [''if'']
   \<and> workflow_complexity (analyze_query conditions_query) = ''moderate''
   \<and> spec_complexity 4 True = ''complex''"
  by (simp add: analyze_conditions_query spec_complexity_def)

text \<open>
  Claim C3, as stated: for the scenario query the analysis returns the intent SCHEDULING,
  a non-empty trigger list, required blocks that begin with the schedule trigger and
  contain the HTTP request block and the postgres block, and complexity moderate or
  complex.  This fails: no scheduling keyword occurs in the query.
\<close>

theorem analyze_scenario_counterexample:
  "\<not> (intent (analyze_query scenario_query) = SCHEDULING
     \<and> triggers (entities (analyze_query scenario_query)) \<noteq> []
     \<and> hd (required_nodes (analyze_query scenario_query)) = ''n8n-nodes-base.scheduleTrigger''
     \<and> ''n8n-nodes-base.httpRequest'' \<in> set (required_nodes (analyze_query scenario_query))
     \<and> ''n8n-nodes-base.postgres'' \<in> set (required_nodes (analyze_query scenario_query))
     \<and> (workflow_complexity (analyze_query scenario_query) = ''moderate''
        \<or> workflow_complexity (analyze_query scenario_query) = ''complex''))"
  by (simp add: analyze_scenario_query)

text \<open>
  Claim C3, amended: for the scenario query the analysis returns the intent
  API\_INTEGRATION (three of its keywords occur: api, fetch, post), the trigger list
  \<open>[every]\<close>, and a list of required blocks that begins with the schedule trigger and
  contains the HTTP request block.
\<close>

theorem analyze_scenario_result:
  "intent (analyze_query scenario_query) = API_INTEGRATION
   \<and> triggers (entities (analyze_query scenario_query)) = [''every'']
   \<and> hd (required_nodes (analyze_query scenario_query)) = ''n8n-nodes-base.scheduleTrigger''
   \<and> ''n8n-nodes-base.httpRequest'' \<in> set (required_nodes (analyze_query scenario_query))"
  by (simp add: analyze_scenario_query)

text \<open>
  Claim C5.  For every query, if entity extraction finds a trigger word then the list of
  required blocks is not empty; and when no block collected before the trigger step
  contains \<open>Trigger\<close>, an entry block is put at position 0: the schedule trigger when
  the cleaned query contains \<open>schedule\<close> or \<open>every\<close>, the webhook otherwise.
\<close>

theorem required_nodes_nonempty_when_triggers:
  "triggers (entities (analyze_query q)) \<noteq> [] \<Longrightarrow>
     required_nodes (analyze_query q) \<noteq> []
   \<and> (\<not> list_ex (\<lambda>node. sublist ''Trigger'' node)
           (nodes_before_trigger (intent (analyze_query q)) (entities (analyze_query q))) \<longrightarrow>
        required_nodes (analyze_query q) =
          (if sublist ''schedule'' (cleaned_query (analyze_query q))
              \<or> sublist ''every'' (cleaned_query (analyze_query q))
           then ''n8n-nodes-base.scheduleTrigger'' else ''n8n-nodes-base.webhook'')
          # nodes_before_trigger (intent (analyze_query q)) (entities (analyze_query q)))"
  unfolding analyze_query_def identify_required_nodes_def Let_def
  by (cases "nodes_before_trigger (detect_intent (strip (lower q)))
               (extract_entities (strip (lower q)))") simp_all

theorem required_nodes_nonempty_when_triggers_witness:
  "triggers (entities (analyze_query scenario_query)) \<noteq> []
   \<and> required_nodes (analyze_query scenario_query) \<noteq> []
   \<and> required_nodes (analyze_query scenario_query) =
        ''n8n-nodes-base.scheduleTrigger''
        # nodes_before_trigger (intent (analyze_query scenario_query))
            (entities (analyze_query scenario_query))"
proof -
  have h: "triggers (entities (analyze_query scenario_query)) \<noteq> []"
    by (simp add: analyze_scenario_query)
  have n: "\<not> list_ex (\<lambda>node. sublist ''Trigger'' node)
           (nodes_before_trigger (intent (analyze_query scenario_query))
              (entities (analyze_query scenario_query)))"
    unfolding analyze_scenario_query by code_simp
  have e: "sublist ''every'' (cleaned_query (analyze_query scenario_query))"
    unfolding analyze_scenario_query by code_simp
  show ?thesis
    using h n e required_nodes_nonempty_when_triggers [OF h] by simp
qed

section \<open>Properties of the context assembly\<close>

text \<open>
  Claim C7.  The specification omits the documentation section of a required block that
  no retrieved hit matches.  \<^const>\<open>assemble_context\<close> guards the append with
  \<^verbatim>\<open>if node_docs:\<close>, but \<^verbatim>\<open>_get_node_documentation\<close> returns a dictionary with four
  keys in every case, so the guard never fails: with no hit at all, each of the two
  required blocks of the scenario query still gets an entry, with empty description and
  properties.
\<close>

theorem assemble_context_keeps_unmatched_blocks:
  "\<not> isl (assemble_context (analyze_query scenario_query) no_chunks)
   \<and> node_documentation (projr (assemble_context (analyze_query scenario_query) no_chunks)) =
     [\<lparr> node_type = ''n8n-nodes-base.scheduleTrigger'', properties = [], description = [],
        configuration = [] \<rparr>,
      \<lparr> node_type = ''n8n-nodes-base.httpRequest'', properties = [], description = [],
        configuration = [] \<rparr>]"
  unfolding analyze_scenario_query
  by (simp add: assemble_context_def no_chunks_def get_node_documentation_def
        get_workflow_patterns_def Let_def)

text \<open>
  Claim C8.  The specification appends the rule about \<open>httpMethod\<close> and \<open>path\<close> whenever
  the webhook block \<open>n8n-nodes-base.webhook\<close> is required.
  \<^const>\<open>get_validation_rules\<close> looks for the list element \<open>nodes-base.webhook\<close>, which
  is not the identifier of the webhook block, so for the required blocks
  \<open>[n8n-nodes-base.webhook]\<close> only the four fixed rules come back.
\<close>

theorem get_validation_rules_webhook:
  "get_validation_rules [''n8n-nodes-base.webhook''] =
     [''Workflow must have at least one trigger node'',
      ''All node connections must be valid'',
      ''Node IDs must be unique'',
      ''Position arrays must have [x, y] coordinates'']"
  by code_simp

section \<open>Properties of the chunker\<close>

text \<open>
  Claim C9, as stated: every text no longer than the chunk size, the empty text
  included, is returned as the one-element list of itself.  This fails at the empty
  text, for which the result is the empty list.
\<close>

theorem split_text_empty_counterexample:
  "int (length ([] :: string)) \<le> 800 \<and> split_text whole_text_splitter 800 [] \<noteq> [[]]"
  by (simp add: split_text_def)

text \<open>
  Claim C9, amended: a text no longer than the chunk size is returned as the one-element
  list of itself when it is not empty, and as the empty list when it is empty.
\<close>

theorem split_text_short:
  "int (length t) \<le> chunk_size \<Longrightarrow>
   split_text text_splitter chunk_size t = (if t = [] then [] else [t])"
  by (simp add: split_text_def)

theorem split_text_short_witness:
  "int (length ''abc'') \<le> 800 \<and> split_text whole_text_splitter 800 ''abc'' = [''abc'']"
  using split_text_short [of "''abc''" 800 whole_text_splitter] by simp

section \<open>Properties of the feedback loop\<close>

lemma node_weight_empty_cache:
  "node_success_rates fb = [] \<Longrightarrow>
   node_weight fb =
     map_of (map (\<lambda>(k, r). (k, effectiveness r))
              (filter (\<lambda>(k, r). total_uses r > 0) (node_effectiveness fb)))"
  by (simp add: node_weight_def get_node_weights_def Let_def)

lemma block_context_nodes: "get_or (gc_required_nodes (block_context x)) [] = [x]"
  by (simp add: block_context_def get_or_def)

lemma record_generation_locked:
  assumes "get_or (gc_required_nodes ctx) [] \<noteq> []" and "truthy w \<or> \<not> s"
  shows "record_generation fb q ctx w s ve uf = Inl OperationalError"
  using assms
  by (auto simp: record_generation_def update_node_effectiveness_def Let_def)

text \<open>
  Claim C4.  The specification has every call of the recording append one history row
  and update or create one effectiveness record for each required block, so that ten
  recorded successes for a block \<open>X\<close> give it the weight 1.  In \<^const>\<open>record_generation\<close>
  the history row is inserted through one connection that commits at the end of the
  call, and the effectiveness rows are written through a second connection in between:
  on a fresh store, the first recorded success for \<open>X\<close> (and likewise a recorded
  failure) raises \<open>OperationalError\<close>, nothing is stored, and the weight getter has no
  entry for \<open>X\<close>.  The one call for \<open>X\<close> that does return is a success without a
  workflow, which skips the effectiveness update: it stores the history row and no
  effectiveness record.
\<close>

theorem record_generation_database_locked:
  "record_generation init_feedback ''q'' (block_context ''X'') some_workflow True None None
     = Inl OperationalError
   \<and> record_generation init_feedback ''q'' (block_context ''X'') some_workflow False None None
     = Inl OperationalError
   \<and> node_weight init_feedback ''X'' = None
   \<and> \<not> isl (record_generation init_feedback ''q'' (block_context ''X'') None True None None)
   \<and> length (generation_history (projr
        (record_generation init_feedback ''q'' (block_context ''X'') None True None None))) = 1
   \<and> node_effectiveness (projr
        (record_generation init_feedback ''q'' (block_context ''X'') None True None None)) = []"
proof -
  have t: "truthy some_workflow" by (simp add: truthy_def some_workflow_def)
  have r1: "record_generation init_feedback ''q'' (block_context ''X'') some_workflow True
              None None = Inl OperationalError"
    by (rule record_generation_locked) (simp_all add: block_context_nodes t)
  have r2: "record_generation init_feedback ''q'' (block_context ''X'') some_workflow False
              None None = Inl OperationalError"
    by (rule record_generation_locked) (simp_all add: block_context_nodes)
  have w: "node_weight init_feedback ''X'' = None"
    by (simp add: node_weight_empty_cache init_feedback_def)
  have r3: "record_generation init_feedback ''q'' (block_context ''X'') None True None None
      = Inr \<lparr> generation_history =
                [\<lparr> h_query = ''q'', h_intent = ''unknown'', h_complexity = ''unknown'',
                   h_required_nodes = [''X''], h_retrieved_chunks = (0, 0, 0),
                   h_generated_workflow = None, h_success = True,
                   h_validation_errors = None, h_user_feedback = None \<rparr>],
              node_effectiveness = [], pattern_success = [],
              node_success_rates = [], pattern_effectiveness_cache = [] \<rparr>"
    by (simp add: record_generation_def update_pattern_effectiveness_def truthy_def
          init_feedback_def block_context_def get_or_def Let_def)
  show ?thesis using r1 r2 w by (simp add: r3)
qed

section \<open>Properties of the multi-stage retrieval\<close>

lemma format_results_bound:
  "format_results raw = Inr rs \<Longrightarrow> \<forall>docs \<in> set (documents raw). length docs \<le> n
     \<Longrightarrow> length rs \<le> n"
  by (auto simp: format_results_def split: list.splits)

lemma format_results_well_formed:
  "well_formed raw \<Longrightarrow> \<exists>rs. format_results raw = Inr rs"
  by (auto simp: format_results_def well_formed_def split: list.splits)

lemma dedup_loop_length:
  "length acc < k \<Longrightarrow> length (dedup_loop h k rs seen acc) \<le> k"
  by (induction rs arbitrary: seen acc) (auto simp: Let_def)

lemma dedup_loop_distinct:
  "set seen = set (map (\<lambda>x. h (take 100 (content x))) acc) \<Longrightarrow>
   distinct (map (\<lambda>x. h (take 100 (content x))) acc) \<Longrightarrow>
   distinct (map (\<lambda>x. h (take 100 (content x))) (dedup_loop h k rs seen acc))"
  by (induction rs arbitrary: seen acc) (auto simp: Let_def)

lemma node_stage_bound:
  "node_stage c k es = Inr rs \<Longrightarrow> honours_n_results c \<Longrightarrow> length rs \<le> k * length es"
proof (induction es arbitrary: rs)
  case Nil
  then show ?case by simp
next
  case (Cons e es)
  from Cons.prems(1) obtain r1 r2 where
    f: "format_results (c e k) = Inr r1" and n: "node_stage c k es = Inr r2" and rs: "rs = r1 @ r2"
    by (auto split: sum.splits)
  have "length r1 \<le> k"
    using f Cons.prems(2) by (auto simp: honours_n_results_def intro: format_results_bound)
  moreover have "length r2 \<le> k * length es"
    using Cons.IH [OF n Cons.prems(2)] .
  ultimately show ?case using rs by simp
qed

lemma node_stage_well_formed:
  "well_formed_collection c \<Longrightarrow> \<exists>rs. node_stage c k es = Inr rs"
proof (induction es)
  case Nil
  then show ?case by simp
next
  case (Cons e es)
  then obtain r2 where "node_stage c k es = Inr r2" by blast
  moreover obtain r1 where "format_results (c e k) = Inr r1"
    using Cons.prems format_results_well_formed [of "c e k"]
    by (auto simp: well_formed_collection_def)
  ultimately show ?case by simp
qed

lemma base_stage_bound:
  "base_stage copt es n = Inr rs \<Longrightarrow> (\<forall>c. copt = Some c \<longrightarrow> honours_n_results c)
     \<Longrightarrow> length rs \<le> n"
  by (auto simp: base_stage_def honours_n_results_def split: option.splits list.splits
        intro: format_results_bound)

lemma base_stage_absent: "base_stage None es n = Inr []"
  by (simp add: base_stage_def)

lemma base_stage_well_formed:
  "es \<noteq> [] \<Longrightarrow> (\<forall>c. copt = Some c \<longrightarrow> well_formed_collection c)
     \<Longrightarrow> \<exists>rs. base_stage copt es n = Inr rs"
  using format_results_well_formed
  by (auto simp: base_stage_def well_formed_collection_def split: option.splits list.splits)


lemma nodes_cap:
  assumes "node_stage c k es = Inr node_results" and "honours_n_results c"
  shows "length (dedup_loop h k (sort_reverse relevance_score node_results) [] []) \<le> k"
proof (cases k)
  case 0
  with node_stage_bound [OF assms] have "node_results = []" by simp
  then show ?thesis by (simp add: sort_reverse_def)
next
  case (Suc j)
  then show ?thesis by (simp add: dedup_loop_length)
qed

lemma nodes_part:
  assumes ns: "(case copt of
              None \<Rightarrow> Inr []
            | Some c \<Rightarrow>
                (case node_stage c k es of
                   Inl err \<Rightarrow> Inl err
                 | Inr node_results \<Rightarrow>
                     Inr (dedup_loop h k (sort_reverse relevance_score node_results) [] [])))
          = Inr ns"
    and hon: "\<forall>c. copt = Some c \<longrightarrow> honours_n_results c"
  shows "length ns \<le> k \<and> distinct (map (\<lambda>x. h (take 100 (content x))) ns)"
proof (cases copt)
  case None
  with ns show ?thesis by simp
next
  case (Some c)
  with ns obtain node_results where
    st: "node_stage c k es = Inr node_results" and
    eq: "ns = dedup_loop h k (sort_reverse relevance_score node_results) [] []"
    by (auto split: sum.splits)
  have "honours_n_results c" using hon Some by simp
  from nodes_cap [OF st this] have "length ns \<le> k" using eq by simp
  moreover have "distinct (map (\<lambda>x. h (take 100 (content x))) ns)"
    unfolding eq by (rule dedup_loop_distinct) simp_all
  ultimately show ?thesis by simp
qed

text \<open>
  Claim C10.  For every number \<open>k\<close> of results per stage and every store whose
  collections answer a query for \<open>n\<close> results with at most \<open>n\<close> hits, the output of the
  multi-stage retrieval keeps the size caps although the nodes collection is queried with
  two embeddings: at most \<open>k\<close> nodes, with pairwise different hashes of their content
  prefix, at most \<open>min k 3\<close> templates and tasks each, at most \<open>min k 2\<close> connections;
  a collection that is not loaded contributes the empty list.  The retrieval does return
  such an output when there is at least one query embedding and the responses are well
  formed.
\<close>

theorem multi_stage_retrieval_caps:
  assumes hon: "\<forall>name c. collections name = Some c \<longrightarrow> honours_n_results c"
  shows "(multi_stage_retrieval h collections embs analysis k = Inr r \<longrightarrow>
            length (nodes r) \<le> k
          \<and> distinct (map (\<lambda>x. h (take 100 (content x))) (nodes r))
          \<and> length (templates r) \<le> min k 3
          \<and> length (tasks r) \<le> min k 3
          \<and> length (connections r) \<le> min k 2
          \<and> (collections ''n8n_nodes'' = None \<longrightarrow> nodes r = [])
          \<and> (collections ''n8n_templates'' = None \<longrightarrow> templates r = [])
          \<and> (collections ''n8n_tasks'' = None \<longrightarrow> tasks r = [])
          \<and> (collections ''n8n_connections'' = None \<longrightarrow> connections r = []))
       \<and> (embs \<noteq> [] \<and> (\<forall>name c. collections name = Some c \<longrightarrow> well_formed_collection c) \<longrightarrow>
            (\<exists>r'. multi_stage_retrieval h collections embs analysis k = Inr r'))"
proof (intro conjI impI)
  assume ret: "multi_stage_retrieval h collections embs analysis k = Inr r"
  from ret obtain ns where
    ns: "(case collections ''n8n_nodes'' of
              None \<Rightarrow> Inr []
            | Some c \<Rightarrow>
                (case node_stage c k (take 2 embs) of
                   Inl err \<Rightarrow> Inl err
                 | Inr node_results \<Rightarrow>
                     Inr (dedup_loop h k (sort_reverse relevance_score node_results) [] [])))
          = Inr ns"
    and ts: "base_stage (collections ''n8n_templates'') embs (min k 3) = Inr (templates r)"
    and ks: "base_stage (collections ''n8n_tasks'') embs (min k 3) = Inr (tasks r)"
    and cs: "base_stage (collections ''n8n_connections'') embs (min k 2) = Inr (connections r)"
    and nr: "nodes r = ns"
    unfolding multi_stage_retrieval_def by (auto split: sum.splits)
  have "\<forall>c. collections ''n8n_nodes'' = Some c \<longrightarrow> honours_n_results c"
    using hon by simp
  from nodes_part [OF ns this]
  show "length (nodes r) \<le> k"
    and "distinct (map (\<lambda>x. h (take 100 (content x))) (nodes r))"
    using nr by simp_all
  show "length (templates r) \<le> min k 3"
    using ts hon by (intro base_stage_bound) auto
  show "length (tasks r) \<le> min k 3"
    using ks hon by (intro base_stage_bound) auto
  show "length (connections r) \<le> min k 2"
    using cs hon by (intro base_stage_bound) auto
  show "nodes r = []" if "collections ''n8n_nodes'' = None"
    using ns nr that by simp
  show "templates r = []" if "collections ''n8n_templates'' = None"
    using ts that by (simp add: base_stage_absent)
  show "tasks r = []" if "collections ''n8n_tasks'' = None"
    using ks that by (simp add: base_stage_absent)
  show "connections r = []" if "collections ''n8n_connections'' = None"
    using cs that by (simp add: base_stage_absent)
next
  assume wf: "embs \<noteq> [] \<and> (\<forall>name c. collections name = Some c \<longrightarrow> well_formed_collection c)"
  have n: "\<exists>ns. (case collections ''n8n_nodes'' of
              None \<Rightarrow> Inr []
            | Some c \<Rightarrow>
                (case node_stage c k (take 2 embs) of
                   Inl err \<Rightarrow> Inl err
                 | Inr node_results \<Rightarrow>
                     Inr (dedup_loop h k (sort_reverse relevance_score node_results) [] [])))
          = Inr ns"
  proof (cases "collections ''n8n_nodes''")
    case None
    then show ?thesis by simp
  next
    case (Some c)
    with wf have "well_formed_collection c" by blast
    from node_stage_well_formed [OF this, of k "take 2 embs"] Some show ?thesis by auto
  qed
  have t: "\<exists>rs. base_stage (collections ''n8n_templates'') embs (min k 3) = Inr rs"
    using wf by (intro base_stage_well_formed) auto
  have a: "\<exists>rs. base_stage (collections ''n8n_tasks'') embs (min k 3) = Inr rs"
    using wf by (intro base_stage_well_formed) auto
  have c: "\<exists>rs. base_stage (collections ''n8n_connections'') embs (min k 2) = Inr rs"
    using wf by (intro base_stage_well_formed) auto
  from n t a c show "\<exists>r'. multi_stage_retrieval h collections embs analysis k = Inr r'"
    unfolding multi_stage_retrieval_def by auto
qed

lemma demo_collection_honours: "honours_n_results demo_collection"
  by (simp add: honours_n_results_def demo_collection_def)

lemma demo_collection_well_formed: "well_formed_collection demo_collection"
  by (simp add: well_formed_collection_def well_formed_def demo_collection_def)

lemma demo_honours:
  "\<forall>name c. demo_collections name = Some c \<longrightarrow> honours_n_results c"
  by (auto simp: demo_collections_def demo_collection_honours split: if_splits)

lemma demo_retrieval:
  "multi_stage_retrieval length_hash demo_collections [[0], [1]] (analyze_query scenario_query) 3
   = Inr \<lparr> nodes = [\<lparr> content = ''bb'', metadata = None, relevance_score = 7/8 \<rparr>,
                    \<lparr> content = ''a'', metadata = None, relevance_score = 3/4 \<rparr>],
           templates = [\<lparr> content = ''a'', metadata = None, relevance_score = 3/4 \<rparr>,
                        \<lparr> content = ''bb'', metadata = None, relevance_score = 7/8 \<rparr>,
                        \<lparr> content = ''a'', metadata = None, relevance_score = 1/2 \<rparr>],
           tasks = [\<lparr> content = ''a'', metadata = None, relevance_score = 3/4 \<rparr>,
                    \<lparr> content = ''bb'', metadata = None, relevance_score = 7/8 \<rparr>,
                    \<lparr> content = ''a'', metadata = None, relevance_score = 1/2 \<rparr>],
           connections = [] \<rparr>"
  by (simp add: multi_stage_retrieval_def demo_collections_def demo_collection_def
        format_results_def base_stage_def sort_reverse_def length_hash_def Let_def)

theorem multi_stage_retrieval_caps_witness:
  "honours_n_results demo_collection
   \<and> well_formed_collection demo_collection
   \<and> demo_collections ''n8n_nodes'' = Some demo_collection
   \<and> demo_collections ''n8n_connections'' = None
   \<and> multi_stage_retrieval length_hash demo_collections [[0], [1]]
         (analyze_query scenario_query) 3
       = Inr \<lparr> nodes = [\<lparr> content = ''bb'', metadata = None, relevance_score = 7/8 \<rparr>,
                        \<lparr> content = ''a'', metadata = None, relevance_score = 3/4 \<rparr>],
               templates = [\<lparr> content = ''a'', metadata = None, relevance_score = 3/4 \<rparr>,
                            \<lparr> content = ''bb'', metadata = None, relevance_score = 7/8 \<rparr>,
                            \<lparr> content = ''a'', metadata = None, relevance_score = 1/2 \<rparr>],
               tasks = [\<lparr> content = ''a'', metadata = None, relevance_score = 3/4 \<rparr>,
                        \<lparr> content = ''bb'', metadata = None, relevance_score = 7/8 \<rparr>,
                        \<lparr> content = ''a'', metadata = None, relevance_score = 1/2 \<rparr>],
               connections = [] \<rparr>
   \<and> length [\<lparr> content = ''bb'', metadata = None, relevance_score = 7/8 \<rparr>,
              \<lparr> content = ''a'', metadata = None, relevance_score = 3/4 \<rparr>] \<le> (3::nat)
   \<and> length [\<lparr> content = ''a'', metadata = None, relevance_score = 3/4 \<rparr>,
              \<lparr> content = ''bb'', metadata = None, relevance_score = 7/8 \<rparr>,
              \<lparr> content = ''a'', metadata = None, relevance_score = 1/2 \<rparr>] \<le> min (3::nat) 3"
  using multi_stage_retrieval_caps [OF demo_honours, of length_hash "[[0], [1]]"
      "analyze_query scenario_query" 3]
    demo_collection_honours demo_collection_well_formed demo_retrieval
  by (simp add: demo_collections_def)

section \<open>Properties of the service-aware ranking\<close>

lemma lower_char_idem: "lower_char (lower_char c) = lower_char c"
  by (simp add: lower_char_def Let_def)

lemma lower_idem: "lower (lower s) = lower s"
  by (simp add: lower_def lower_char_idem)

lemma match_bonus_nonneg: "0 \<le> match_bonus nt service"
  by (simp add: match_bonus_def)

lemma match_bonus_match: "sublist service nt \<Longrightarrow> 1/5 \<le> match_bonus nt service"
  by (simp add: match_bonus_def)

lemma match_bonus_no_match: "\<not> sublist service nt \<Longrightarrow> match_bonus nt service = 0"
  by (simp add: match_bonus_def)

lemma sum_match_bonus_nonneg: "0 \<le> (\<Sum>service \<leftarrow> ms. match_bonus nt service)"
  by (induction ms) (simp_all add: match_bonus_nonneg)

lemma sum_match_bonus_match:
  "list_ex (\<lambda>service. sublist service nt) ms \<Longrightarrow>
   1/5 \<le> (\<Sum>service \<leftarrow> ms. match_bonus nt service)"
proof (induction ms)
  case Nil
  then show ?case by simp
next
  case (Cons a ms)
  show ?case
  proof (cases "sublist a nt")
    case True
    from match_bonus_match [OF True] sum_match_bonus_nonneg [of nt ms]
    show ?thesis by simp
  next
    case False
    with Cons.prems have "list_ex (\<lambda>service. sublist service nt) ms" by simp
    from Cons.IH [OF this] match_bonus_nonneg [of nt a] show ?thesis by simp
  qed
qed

lemma sum_match_bonus_no_match:
  "\<not> list_ex (\<lambda>service. sublist service nt) ms \<Longrightarrow>
   (\<Sum>service \<leftarrow> ms. match_bonus nt service) = 0"
  by (induction ms) (simp_all add: match_bonus_no_match)

lemma generic_penalty_nonpos: "generic_penalty nt ms \<le> 0"
  by (simp add: generic_penalty_def)

lemma generic_penalty_lower_bound: "- (3/10) \<le> generic_penalty nt ms"
  by (simp add: generic_penalty_def)

lemma generic_penalty_not_penalised:
  "\<not> penalised ms raw_nt \<Longrightarrow> generic_penalty (lower raw_nt) ms = 0"
  by (auto simp: generic_penalty_def penalised_def lower_idem)

lemma content_bonus_nonneg: "0 \<le> content_bonus doc ms"
proof -
  have "0 \<le> (\<Sum>service \<leftarrow> ms. if sublist service (lower doc) then 1/10 else (0::real))"
    by (induction ms) simp_all
  then show ?thesis by (simp add: content_bonus_def)
qed

lemma bonus_matching:
  "matches_entity ms md \<Longrightarrow> \<not> hit_penalised ms md \<Longrightarrow>
   1/5 + content_bonus doc ms \<le> hit_service_bonus ms md doc"
  using sum_match_bonus_match generic_penalty_not_penalised
  by (auto simp: matches_entity_def hit_penalised_def hit_service_bonus_def Let_def
        split: option.splits)

lemma bonus_not_matching:
  "\<not> matches_entity ms md \<Longrightarrow> hit_service_bonus ms md doc \<le> content_bonus doc ms"
  using sum_match_bonus_no_match generic_penalty_nonpos content_bonus_nonneg
  by (auto simp: matches_entity_def hit_service_bonus_def Let_def split: option.splits)

lemma score_hits_scored:
  "score_hits ms docs mds ds = Inr out \<Longrightarrow> x \<in> set out \<Longrightarrow>
     1 + distance x \<noteq> 0
   \<and> service_bonus x = hit_service_bonus ms (scored_metadata x) (document x)
   \<and> score x = 1 / (1 + distance x) + service_bonus x"
proof (induction ms docs mds ds arbitrary: out rule: score_hits.induct)
  case (4 service_mentions doc docs m ms d ds)
  from "4.prems"(1) have nz: "1 + d \<noteq> 0" by (auto split: if_splits)
  with "4.prems"(1) obtain rest where
    r: "score_hits service_mentions docs ms ds = Inr rest" and
    o: "out = \<lparr> document = doc, scored_metadata = m, distance = d,
                 score = 1 / (1 + d) + hit_service_bonus service_mentions m doc,
                 service_bonus = hit_service_bonus service_mentions m doc \<rparr> # rest"
    by (auto simp: Let_def split: sum.splits)
  show ?case
  proof (cases "x \<in> set rest")
    case True
    from "4.IH" [OF nz refl refl r True] show ?thesis .
  next
    case False
    with "4.prems"(2) o nz show ?thesis by auto
  qed
qed simp_all

lemma rank_results_scored:
  "rank_results_by_service_relevance results ms q = Inr out \<Longrightarrow> x \<in> set out \<Longrightarrow>
     1 + distance x \<noteq> 0
   \<and> service_bonus x = hit_service_bonus ms (scored_metadata x) (document x)
   \<and> score x = 1 / (1 + distance x) + service_bonus x"
  by (auto simp: rank_results_by_service_relevance_def sort_reverse_def
        split: list.splits sum.splits dest: score_hits_scored)

lemma rank_results_sorted:
  "rank_results_by_service_relevance results ms q = Inr out \<Longrightarrow>
   sorted (map (\<lambda>x. - score x) out)"
  by (auto simp: rank_results_by_service_relevance_def sort_reverse_def
        split: list.splits sum.splits)

lemma sorted_position:
  "sorted (map f out) \<Longrightarrow> i < length out \<Longrightarrow> j < length out \<Longrightarrow>
   f (out ! i) < f (out ! j) \<Longrightarrow> i < j"
proof (rule ccontr)
  assume s: "sorted (map f out)" and i: "i < length out" and j: "j < length out"
    and lt: "f (out ! i) < f (out ! j)" and "\<not> i < j"
  then have "j \<le> i" by simp
  with s i have "map f out ! j \<le> map f out ! i"
    by (simp add: sorted_iff_nth_mono)
  with i j lt show False by simp
qed

lemma hit_service_bonus_lower: "- (3/10) \<le> hit_service_bonus ms md doc"
proof -
  have "- (3/10) \<le> (\<Sum>service \<leftarrow> ms. match_bonus nt service) + generic_penalty nt ms
          + content_bonus doc ms" for nt
    using sum_match_bonus_nonneg [of nt ms] generic_penalty_lower_bound [of nt ms]
      content_bonus_nonneg [of doc ms]
    by linarith
  then show ?thesis
    by (auto simp: hit_service_bonus_def Let_def split: option.splits)
qed

lemma detect_gmail_query: "detect_service_mentions gmail_query = [''gmail'']"
  by code_simp

lemma detect_smtp_query: "detect_service_mentions smtp_query = [''gmail'', ''smtp'']"
  by code_simp

lemma rank_gmail_results:
  "rank_results_by_service_relevance gmail_results [''gmail''] gmail_query
   = Inr [\<lparr> document = ''doc'',
            scored_metadata = Some [(''node_type'', ''n8n-nodes-base.gmail'')],
            distance = 0, score = 3/2, service_bonus = 1/2 \<rparr>,
          \<lparr> document = ''doc'',
            scored_metadata = Some [(''node_type'', ''n8n-nodes-base.code'')],
            distance = 0, score = 1, service_bonus = 0 \<rparr>]"
  by code_simp

lemma rank_smtp_results:
  "rank_results_by_service_relevance smtp_results [''gmail'', ''smtp''] smtp_query
   = Inr [\<lparr> document = ''doc'',
            scored_metadata = Some [(''node_type'', ''n8n-nodes-base.code'')],
            distance = 0, score = 1, service_bonus = 0 \<rparr>,
          \<lparr> document = ''doc'',
            scored_metadata = Some [(''node_type'', ''n8n-nodes-base.emailSendSmtp'')],
            distance = 0, score = 9/10, service_bonus = - (1/10) \<rparr>]"
  by code_simp

lemma matches_gmail:
  "matches_entity [''gmail''] (Some [(''node_type'', ''n8n-nodes-base.gmail'')])"
  by code_simp

lemma not_matches_code_gmail:
  "\<not> matches_entity [''gmail''] (Some [(''node_type'', ''n8n-nodes-base.code'')])"
  by code_simp

lemma not_penalised_gmail:
  "\<not> hit_penalised [''gmail''] (Some [(''node_type'', ''n8n-nodes-base.gmail'')])"
  by code_simp

lemma matches_smtp:
  "matches_entity [''gmail'', ''smtp''] (Some [(''node_type'', ''n8n-nodes-base.emailSendSmtp'')])"
  by code_simp

lemma not_matches_code_smtp:
  "\<not> matches_entity [''gmail'', ''smtp''] (Some [(''node_type'', ''n8n-nodes-base.code'')])"
  by code_simp

text \<open>
  Claim C1, as stated: of two hits with the same distance and document, the one whose
  node type contains a detected service never ranks below the one whose node type
  contains none.  This fails for the query \<^const>\<open>smtp_query\<close>, in which gmail and
  smtp are detected: the hit of node type \<open>n8n-nodes-base.emailSendSmtp\<close> contains smtp,
  gains 0.2 for it and loses 0.3 as a generic email node beside gmail, and so comes
  after the hit of node type \<open>n8n-nodes-base.code\<close>, which contains no detected service.
\<close>

theorem rank_results_matching_hit_counterexample:
  "detect_service_mentions smtp_query = [''gmail'', ''smtp'']
   \<and> matches_entity (detect_service_mentions smtp_query)
        (Some [(''node_type'', ''n8n-nodes-base.emailSendSmtp'')])
   \<and> \<not> matches_entity (detect_service_mentions smtp_query)
        (Some [(''node_type'', ''n8n-nodes-base.code'')])
   \<and> rank_results_by_service_relevance smtp_results (detect_service_mentions smtp_query)
        smtp_query
     = Inr [\<lparr> document = ''doc'',
              scored_metadata = Some [(''node_type'', ''n8n-nodes-base.code'')],
              distance = 0, score = 1, service_bonus = 0 \<rparr>,
            \<lparr> document = ''doc'',
              scored_metadata = Some [(''node_type'', ''n8n-nodes-base.emailSendSmtp'')],
              distance = 0, score = 9/10, service_bonus = - (1/10) \<rparr>]"
  by (simp add: detect_smtp_query rank_smtp_results matches_smtp not_matches_code_smtp)

text \<open>
  Claim C1, amended: in the list that the ranking returns, take two hits with the same
  distance and the same document such that the node type of the first contains a detected
  service, the node type of the second contains none, and the first does not draw the
  penalty for generic nodes (its node type does not contain \<open>httprequest\<close> while reddit
  is detected, nor \<open>emailsend\<close> while gmail is detected).  Then the first has the
  strictly larger score and stands before the second.
\<close>

theorem rank_results_matching_hit_first:
  assumes ret: "rank_results_by_service_relevance results ms q = Inr out"
    and i: "i < length out" and j: "j < length out"
    and dist: "distance (out ! i) = distance (out ! j)"
    and doc: "document (out ! i) = document (out ! j)"
    and mi: "matches_entity ms (scored_metadata (out ! i))"
    and mj: "\<not> matches_entity ms (scored_metadata (out ! j))"
    and np: "\<not> hit_penalised ms (scored_metadata (out ! i))"
  shows "score (out ! j) < score (out ! i) \<and> i < j"
proof -
  have si: "score (out ! i) = 1 / (1 + distance (out ! i))
              + hit_service_bonus ms (scored_metadata (out ! i)) (document (out ! i))"
    using rank_results_scored [OF ret, of "out ! i"] i by simp
  have sj: "score (out ! j) = 1 / (1 + distance (out ! j))
              + hit_service_bonus ms (scored_metadata (out ! j)) (document (out ! j))"
    using rank_results_scored [OF ret, of "out ! j"] j by simp
  have bi: "1/5 + content_bonus (document (out ! i)) ms
              \<le> hit_service_bonus ms (scored_metadata (out ! i)) (document (out ! i))"
    using bonus_matching [OF mi np] .
  have bj: "hit_service_bonus ms (scored_metadata (out ! j)) (document (out ! j))
              \<le> content_bonus (document (out ! j)) ms"
    using bonus_not_matching [OF mj] .
  have lt: "score (out ! j) < score (out ! i)"
    using si sj bi bj dist doc by simp
  then have "- score (out ! i) < - score (out ! j)" by simp
  from sorted_position [OF rank_results_sorted [OF ret] i j this] lt
  show ?thesis by simp
qed

theorem rank_results_matching_hit_first_witness:
  "rank_results_by_service_relevance gmail_results (detect_service_mentions gmail_query)
     gmail_query
     = Inr [\<lparr> document = ''doc'',
              scored_metadata = Some [(''node_type'', ''n8n-nodes-base.gmail'')],
              distance = 0, score = 3/2, service_bonus = 1/2 \<rparr>,
            \<lparr> document = ''doc'',
              scored_metadata = Some [(''node_type'', ''n8n-nodes-base.code'')],
              distance = 0, score = 1, service_bonus = 0 \<rparr>]
   \<and> matches_entity (detect_service_mentions gmail_query)
        (Some [(''node_type'', ''n8n-nodes-base.gmail'')])
   \<and> \<not> matches_entity (detect_service_mentions gmail_query)
        (Some [(''node_type'', ''n8n-nodes-base.code'')])
   \<and> \<not> hit_penalised (detect_service_mentions gmail_query)
        (Some [(''node_type'', ''n8n-nodes-base.gmail'')])
   \<and> (1::real) < 3/2 \<and> (0::nat) < 1"
  using rank_results_matching_hit_first
    [of gmail_results "[''gmail'']" gmail_query _ 0 1, OF rank_gmail_results]
  by (simp add: detect_gmail_query rank_gmail_results matches_gmail not_matches_code_gmail
        not_penalised_gmail)

lemma match_bonus_le: "match_bonus nt service \<le> 1/2"
  by (simp add: match_bonus_def)

lemma sum_match_bonus_le:
  "(\<Sum>service \<leftarrow> ms. match_bonus nt service) \<le> real (length ms) / 2"
proof (induction ms)
  case Nil
  then show ?case by simp
next
  case (Cons a ms)
  with match_bonus_le [of nt a] show ?case by simp
qed

lemma content_bonus_le: "content_bonus doc ms \<le> real (length ms) / 10"
proof -
  have "(\<Sum>service \<leftarrow> ms. if sublist service (lower doc) then 1/10 else (0::real))
          \<le> real (length ms) / 10"
    by (induction ms) auto
  then show ?thesis by (simp add: content_bonus_def)
qed

lemma hit_service_bonus_upper: "hit_service_bonus ms md doc \<le> 3/5 * real (length ms)"
proof -
  have "(\<Sum>service \<leftarrow> ms. match_bonus nt service) + generic_penalty nt ms
          + content_bonus doc ms \<le> 3/5 * real (length ms)" for nt
    using sum_match_bonus_le [of nt ms] generic_penalty_nonpos [of nt ms]
      content_bonus_le [of doc ms]
    by linarith
  then show ?thesis
    by (auto simp: hit_service_bonus_def Let_def split: option.splits)
qed

text \<open>
  Claim C6, as stated: every relevance score lies in the closed interval from 0 to 1,
  whatever bonuses the ranking adds.  This fails: for the query \<^const>\<open>gmail_query\<close>
  the ranking gives the gmail node at distance 0 the score 3/2.
\<close>

theorem relevance_score_range_counterexample:
  "rank_results_by_service_relevance gmail_results (detect_service_mentions gmail_query)
     gmail_query
     = Inr [\<lparr> document = ''doc'',
              scored_metadata = Some [(''node_type'', ''n8n-nodes-base.gmail'')],
              distance = 0, score = 3/2, service_bonus = 1/2 \<rparr>,
            \<lparr> document = ''doc'',
              scored_metadata = Some [(''node_type'', ''n8n-nodes-base.code'')],
              distance = 0, score = 1, service_bonus = 0 \<rparr>]
   \<and> \<not> score (hd (projr (rank_results_by_service_relevance gmail_results
                 (detect_service_mentions gmail_query) gmail_query))) \<le> 1"
  by (simp add: detect_gmail_query rank_gmail_results)

text \<open>
  Claim C6, amended: a hit that the service-aware ranking returns for a distance that is
  not negative has the score base plus bonus, without clamping, where the base
  \<open>1 / (1 + distance)\<close> is positive and at most 1 and the bonus lies between -0.3 and 0.6
  times the number of detected services; so the score is greater than -0.3 and at most 1
  plus 0.6 times that number.
\<close>

theorem rank_results_score_bounds:
  assumes ret: "rank_results_by_service_relevance results ms q = Inr out"
    and x: "x \<in> set out"
    and d: "0 \<le> distance x"
  shows "score x = 1 / (1 + distance x) + service_bonus x
       \<and> 0 < 1 / (1 + distance x) \<and> 1 / (1 + distance x) \<le> 1
       \<and> - (3/10) \<le> service_bonus x \<and> service_bonus x \<le> 3/5 * real (length ms)
       \<and> - (3/10) < score x \<and> score x \<le> 1 + 3/5 * real (length ms)"
proof -
  have s: "service_bonus x = hit_service_bonus ms (scored_metadata x) (document x)"
    and e: "score x = 1 / (1 + distance x) + service_bonus x"
    using rank_results_scored [OF ret x] by simp_all
  have b1: "0 < 1 / (1 + distance x)" using d by simp
  have b2: "1 / (1 + distance x) \<le> 1" using d by simp
  have l: "- (3/10) \<le> service_bonus x" using s hit_service_bonus_lower by simp
  have u: "service_bonus x \<le> 3/5 * real (length ms)" using s hit_service_bonus_upper by simp
  have lo: "- (3/10) < score x" using e b1 l by linarith
  have hi: "score x \<le> 1 + 3/5 * real (length ms)" using e b2 u by linarith
  show ?thesis using e b1 b2 l u lo hi by blast
qed

theorem rank_results_score_bounds_witness:
  "rank_results_by_service_relevance gmail_results [''gmail''] gmail_query
     = Inr [\<lparr> document = ''doc'',
              scored_metadata = Some [(''node_type'', ''n8n-nodes-base.gmail'')],
              distance = 0, score = 3/2, service_bonus = 1/2 \<rparr>,
            \<lparr> document = ''doc'',
              scored_metadata = Some [(''node_type'', ''n8n-nodes-base.code'')],
              distance = 0, score = 1, service_bonus = 0 \<rparr>]
   \<and> (3/2::real) = 1 / (1 + 0) + 1/2 \<and> - (3/10) \<le> (1/2::real)
   \<and> (1/2::real) \<le> 3/5 * real (length [''gmail''])
   \<and> - (3/10) < (3/2::real) \<and> (3/2::real) \<le> 1 + 3/5 * real (length [''gmail''])"
  using rank_results_score_bounds
    [OF rank_gmail_results,
      of "\<lparr> document = ''doc'',
            scored_metadata = Some [(''node_type'', ''n8n-nodes-base.gmail'')],
            distance = 0, score = 3/2, service_bonus = 1/2 \<rparr>"]
    rank_gmail_results
  by simp

end
